theory Spec2Isabelle
  imports Main "HOL-Library.AList"
begin

section \<open>Python values used by the notebooks\<close>

text \<open>
  A Python \<open>dict\<close> is an association list in insertion order; a well-formed one has
  distinct keys, and a lookup finds the first entry of a key.  \<open>d[k] = v\<close> overwrites in
  place or appends, \<open>k in d\<close> tests the keys, \<open>d[k]\<close> raises \<open>KeyError\<close> on a missing
  key, \<open>d.get(k, default)\<close> never raises, and \<open>d.items()\<close> enumerates in insertion
  order.
\<close>

datatype py_error = KeyError

type_synonym ('k, 'v) dict = "('k \<times> 'v) list"

definition dict_contains :: "('k, 'v) dict \<Rightarrow> 'k \<Rightarrow> bool" where
  "dict_contains d k = (k \<in> set (map fst d))"

definition dict_getitem :: "('k, 'v) dict \<Rightarrow> 'k \<Rightarrow> py_error + 'v" where
  "dict_getitem d k = (case map_of d k of None \<Rightarrow> Inl KeyError | Some v \<Rightarrow> Inr v)"

definition dict_get :: "('k, 'v) dict \<Rightarrow> 'k \<Rightarrow> 'v \<Rightarrow> 'v" where
  "dict_get d k dflt = (case map_of d k of None \<Rightarrow> dflt | Some v \<Rightarrow> v)"

definition dict_items :: "('k, 'v) dict \<Rightarrow> ('k \<times> 'v) list" where
  "dict_items d = d"

definition dict_setitem :: "('k, 'v) dict \<Rightarrow> 'k \<Rightarrow> 'v \<Rightarrow> ('k, 'v) dict" where
  "dict_setitem d k v = AList.update k v d"

text \<open>The dict without the entry of \<open>k\<close>: \<open>{j: v for j, v in d.items() if j != k}\<close>.\<close>

definition dict_without :: "('k, 'v) dict \<Rightarrow> 'k \<Rightarrow> ('k, 'v) dict" where
  "dict_without d k = filter (\<lambda>(j, v). j \<noteq> k) d"

text \<open>
  Python lists are mutable objects.  The heap holds the list objects of one element type;
  a reference is an index into it, \<open>xs.copy()\<close> allocates a new object with the same
  elements, and a list display or comprehension allocates a new object as well.
\<close>

type_synonym ref = nat

type_synonym 'a heap = "'a list list"

definition list_new :: "'a list \<Rightarrow> 'a heap \<Rightarrow> ref \<times> 'a heap" where
  "list_new xs h = (length h, h @ [xs])"

definition list_copy :: "ref \<Rightarrow> 'a heap \<Rightarrow> ref \<times> 'a heap" where
  "list_copy a h = list_new (h ! a) h"

section \<open>The problem classes\<close>

text \<open>
  \<open>CSPProblem\<close> is the base class of both notebooks' classes; a subclass is a record
  extension.  The field \<open>domains\<close> maps each variable to the reference of its domain list.
\<close>

record 'k CSPProblem =
  variables :: "'k list"
  domains :: "('k, ref) dict"

record 'k MapColoringProblem = "'k CSPProblem" +
  neighbors :: "('k, 'k list) dict"

record ('k, 't, 'r) CourseSchedulingProblem = "'k CSPProblem" +
  time_slots :: "'t list"
  rooms :: "'r list"
  conflicts :: "('k \<times> 'k) list"

subsection \<open>Construction\<close>

text \<open>
  Modelled from the spec: \<open>CSPProblem.__init__\<close> belongs to the imported \<open>kamgon\<close>
  library, whose code is not among the notebooks.  The spec gives a problem the
  capabilities "list of variables" and "mapping variable to initial domain", so the
  base constructor stores its two arguments.
\<close>

definition CSPProblem_init :: "'k list \<Rightarrow> ('k, ref) dict \<Rightarrow> 'k CSPProblem" where
  "CSPProblem_init vs ds = \<lparr>variables = vs, domains = ds\<rparr>"

text \<open>
  The dict comprehension \<open>{key: src.copy() for key in keys}\<close>: each round allocates a
  copy of the list at \<open>src\<close> and stores its reference under the key.
\<close>

fun copy_for_each ::
  "'k list \<Rightarrow> ref \<Rightarrow> ('k, ref) dict \<Rightarrow> 'a heap \<Rightarrow> ('k, ref) dict \<times> 'a heap" where
  "copy_for_each [] src d h = (d, h)"
| "copy_for_each (key # keys) src d h =
     (case list_copy src h of (a, h') \<Rightarrow> copy_for_each keys src (dict_setitem d key a) h')"

definition MapColoringProblem_init ::
  "'k list \<Rightarrow> ('k, 'k list) dict \<Rightarrow> ref \<Rightarrow> 'v heap \<Rightarrow> 'k MapColoringProblem \<times> 'v heap" where
  "MapColoringProblem_init regions nbs colors h =
     (case copy_for_each regions colors [] h of (ds, h') \<Rightarrow>
        (CSPProblem.extend (CSPProblem_init regions ds) (MapColoringProblem.fields nbs), h'))"

text \<open>
  The comprehension \<open>[(time, room) for time in time_slots for room in rooms]\<close>.
\<close>

definition possible_slots :: "'t list \<Rightarrow> 'r list \<Rightarrow> ('t \<times> 'r) list" where
  "possible_slots ts rs = concat (map (\<lambda>time. map (\<lambda>room. (time, room)) rs) ts)"

definition CourseSchedulingProblem_init ::
  "'k list \<Rightarrow> 't list \<Rightarrow> 'r list \<Rightarrow> ('k \<times> 'k) list \<Rightarrow> ('t \<times> 'r) heap \<Rightarrow>
     ('k, 't, 'r) CourseSchedulingProblem \<times> ('t \<times> 'r) heap" where
  "CourseSchedulingProblem_init courses ts rs cs h =
     (case list_new (possible_slots ts rs) h of (slots, h1) \<Rightarrow>
        (case copy_for_each courses slots [] h1 of (ds, h2) \<Rightarrow>
           (CSPProblem.extend (CSPProblem_init courses ds)
              (CourseSchedulingProblem.fields ts rs cs), h2)))"

text \<open>The list object a variable's domain refers to, read through the heap.\<close>

definition domain_of ::
  "'a heap \<Rightarrow> ('k, 'z) CSPProblem_scheme \<Rightarrow> 'k \<Rightarrow> py_error + 'a list" where
  "domain_of h self v =
     (case dict_getitem (domains self) v of Inl e \<Rightarrow> Inl e | Inr a \<Rightarrow> Inr (h ! a))"

subsection \<open>\<open>MapColoringProblem.is_consistent\<close>\<close>

text \<open>
  The loop \<open>for neighbor in ...\<close> with its early \<open>return False\<close>; falling off the end
  of the loop reaches \<open>return True\<close>.
\<close>

fun check_neighbors :: "'k list \<Rightarrow> 'v \<Rightarrow> ('k, 'v) dict \<Rightarrow> py_error + bool" where
  "check_neighbors [] val assignment = Inr True"
| "check_neighbors (neighbor # rest) val assignment =
     (if dict_contains assignment neighbor then
        (case dict_getitem assignment neighbor of
           Inl e \<Rightarrow> Inl e
         | Inr y \<Rightarrow> if y = val then Inr False else check_neighbors rest val assignment)
      else check_neighbors rest val assignment)"

definition MapColoringProblem_is_consistent ::
  "('k, 'z) MapColoringProblem_scheme \<Rightarrow> 'k \<Rightarrow> 'v \<Rightarrow> ('k, 'v) dict \<Rightarrow> py_error + bool" where
  "MapColoringProblem_is_consistent self variable val assignment =
     check_neighbors (dict_get (neighbors self) variable []) val assignment"

subsection \<open>\<open>CourseSchedulingProblem.is_consistent\<close>\<close>

text \<open>
  Both loops can leave the method through \<open>return False\<close>: a loop yields \<open>Some b\<close> when
  it returned \<open>b\<close> and \<open>None\<close> when it ran to its end.
\<close>

fun scan_conflicts :: "('k \<times> 'k) list \<Rightarrow> 'k \<Rightarrow> 'k \<Rightarrow> bool option" where
  "scan_conflicts [] variable assigned_course = None"
| "scan_conflicts ((course1, course2) # rest) variable assigned_course =
     (if (variable = course1 \<and> assigned_course = course2) \<or>
         (variable = course2 \<and> assigned_course = course1)
      then Some False
      else scan_conflicts rest variable assigned_course)"

fun scan_items ::
  "('k \<times> 'k) list \<Rightarrow> 'k \<Rightarrow> 't \<Rightarrow> 'r \<Rightarrow> ('k \<times> 't \<times> 'r) list \<Rightarrow> bool option" where
  "scan_items cs variable time room [] = None"
| "scan_items cs variable time room ((assigned_course, assigned_slot) # rest) =
     (if assigned_course = variable then scan_items cs variable time room rest
      else
        (case assigned_slot of (assigned_time, assigned_room) \<Rightarrow>
           if time = assigned_time \<and> room = assigned_room then Some False
           else if time = assigned_time then
             (case scan_conflicts cs variable assigned_course of
                Some b \<Rightarrow> Some b
              | None \<Rightarrow> scan_items cs variable time room rest)
           else scan_items cs variable time room rest))"

definition CourseSchedulingProblem_is_consistent ::
  "('k, 't, 'r, 'z) CourseSchedulingProblem_scheme \<Rightarrow> 'k \<Rightarrow> 't \<times> 'r \<Rightarrow>
     ('k, 't \<times> 'r) dict \<Rightarrow> bool" where
  "CourseSchedulingProblem_is_consistent self variable val assignment =
     (case val of (time, room) \<Rightarrow>
        (case scan_items (conflicts self) variable time room (dict_items assignment) of
           Some b \<Rightarrow> b
         | None \<Rightarrow> True))"

subsection \<open>The checks as calls on the program state\<close>

text \<open>
  A call of \<open>is_consistent\<close> receives the problem object and the caller's assignment by
  reference.  The state of a call holds every object the method can reach: the problem
  with all its fields, the heap of the domain lists, and the assignment.  The method is
  translated statement by statement as a function from the state before the call to the
  returned value and the state after it.  The returned value is that of the functions
  above (lemmas \<open>MapColoringProblem_is_consistent_st_eq\<close> and
  \<open>CourseSchedulingProblem_is_consistent_st_eq\<close>).
\<close>

record ('k, 'v) MapColoring_state =
  mc_self :: "'k MapColoringProblem"
  mc_heap :: "'v heap"
  mc_assignment :: "('k, 'v) dict"

record ('k, 't, 'r) CourseScheduling_state =
  cs_self :: "('k, 't, 'r) CourseSchedulingProblem"
  cs_heap :: "('t \<times> 'r) heap"
  cs_assignment :: "('k, 't \<times> 'r) dict"

fun check_neighbors_st ::
  "'k list \<Rightarrow> 'v \<Rightarrow> ('k, 'v) MapColoring_state \<Rightarrow>
     (py_error + bool) \<times> ('k, 'v) MapColoring_state" where
  "check_neighbors_st [] val s = (Inr True, s)"
| "check_neighbors_st (neighbor # rest) val s =
     (if dict_contains (mc_assignment s) neighbor then
        (case dict_getitem (mc_assignment s) neighbor of
           Inl e \<Rightarrow> (Inl e, s)
         | Inr y \<Rightarrow> if y = val then (Inr False, s) else check_neighbors_st rest val s)
      else check_neighbors_st rest val s)"

definition MapColoringProblem_is_consistent_st ::
  "'k \<Rightarrow> 'v \<Rightarrow> ('k, 'v) MapColoring_state \<Rightarrow>
     (py_error + bool) \<times> ('k, 'v) MapColoring_state" where
  "MapColoringProblem_is_consistent_st variable val s =
     check_neighbors_st (dict_get (neighbors (mc_self s)) variable []) val s"

fun scan_conflicts_st ::
  "('k \<times> 'k) list \<Rightarrow> 'k \<Rightarrow> 'k \<Rightarrow> ('k, 't, 'r) CourseScheduling_state \<Rightarrow>
     bool option \<times> ('k, 't, 'r) CourseScheduling_state" where
  "scan_conflicts_st [] variable assigned_course s = (None, s)"
| "scan_conflicts_st ((course1, course2) # rest) variable assigned_course s =
     (if (variable = course1 \<and> assigned_course = course2) \<or>
         (variable = course2 \<and> assigned_course = course1)
      then (Some False, s)
      else scan_conflicts_st rest variable assigned_course s)"

fun scan_items_st ::
  "'k \<Rightarrow> 't \<Rightarrow> 'r \<Rightarrow> ('k \<times> 't \<times> 'r) list \<Rightarrow> ('k, 't, 'r) CourseScheduling_state \<Rightarrow>
     bool option \<times> ('k, 't, 'r) CourseScheduling_state" where
  "scan_items_st variable time room [] s = (None, s)"
| "scan_items_st variable time room ((assigned_course, assigned_slot) # rest) s =
     (if assigned_course = variable then scan_items_st variable time room rest s
      else
        (case assigned_slot of (assigned_time, assigned_room) \<Rightarrow>
           if time = assigned_time \<and> room = assigned_room then (Some False, s)
           else if time = assigned_time then
             (case scan_conflicts_st (conflicts (cs_self s)) variable assigned_course s of
                (Some b, s') \<Rightarrow> (Some b, s')
              | (None, s') \<Rightarrow> scan_items_st variable time room rest s')
           else scan_items_st variable time room rest s))"

definition CourseSchedulingProblem_is_consistent_st ::
  "'k \<Rightarrow> 't \<times> 'r \<Rightarrow> ('k, 't, 'r) CourseScheduling_state \<Rightarrow>
     bool \<times> ('k, 't, 'r) CourseScheduling_state" where
  "CourseSchedulingProblem_is_consistent_st variable val s =
     (case val of (time, room) \<Rightarrow>
        (case scan_items_st variable time room (dict_items (cs_assignment s)) s of
           (Some b, s') \<Rightarrow> (b, s')
         | (None, s') \<Rightarrow> (True, s')))"

section \<open>The search\<close>

subsection \<open>Assignments built from accepted pairs\<close>

text \<open>
  A search extends its assignment by \<open>assignment[variable] = value\<close> only after the check
  accepted the pair.  \<open>build_accepted\<close> replays a sequence of such steps and yields the
  assignment reached, or \<open>None\<close> when the check rejects a step.
\<close>

fun build_accepted ::
  "('k \<Rightarrow> 'v \<Rightarrow> ('k, 'v) dict \<Rightarrow> bool) \<Rightarrow> ('k \<times> 'v) list \<Rightarrow> ('k, 'v) dict \<Rightarrow>
     ('k, 'v) dict option" where
  "build_accepted accepts [] assignment = Some assignment"
| "build_accepted accepts ((variable, val) # steps) assignment =
     (if accepts variable val assignment
      then build_accepted accepts steps (dict_setitem assignment variable val)
      else None)"

definition MapColoring_accepts ::
  "('k, 'z) MapColoringProblem_scheme \<Rightarrow> 'k \<Rightarrow> 'v \<Rightarrow> ('k, 'v) dict \<Rightarrow> bool" where
  "MapColoring_accepts self variable val assignment =
     (MapColoringProblem_is_consistent self variable val assignment = Inr True)"

subsection \<open>The solver\<close>

text \<open>
  Modelled from the spec: \<open>backtracking_search\<close> belongs to the imported \<open>kamgon\<close>
  library, whose code is not among the notebooks; the notebooks only call it.  The spec
  gives the solver a problem exposing its variables, a mapping from each variable to its
  domain, and \<open>is_consistent(variable, value, assignment)\<close>.
\<close>

record ('k, 'v) csp =
  csp_variables :: "'k list"
  csp_domains :: "'k \<Rightarrow> 'v list"
  csp_is_consistent :: "'k \<Rightarrow> 'v \<Rightarrow> ('k, 'v) dict \<Rightarrow> bool"

text \<open>
  Modelled from the spec: the algorithm of the spec's section 4.1.  \<open>backtrack\<close> walks
  the variables in their fixed order: with none left the assignment is complete and is
  returned (step 1); a variable already assigned is passed over, the first unassigned one
  is selected (step 2).  \<open>try_values\<close> is the loop over the candidate values of the
  selected variable in domain order (step 3): a consistent value is added to the
  assignment and the search recurses; success is returned at once, after a failure the
  value is taken back and the next candidate is tried.  With no candidate left the branch
  fails (step 4).  \<open>None\<close> is the no-solution signal.
\<close>

fun backtrack ::
    "('k, 'v) csp \<Rightarrow> 'k list \<Rightarrow> ('k, 'v) dict \<Rightarrow> ('k, 'v) dict option"
  and try_values ::
    "('k, 'v) csp \<Rightarrow> 'k \<Rightarrow> 'v list \<Rightarrow> 'k list \<Rightarrow> ('k, 'v) dict \<Rightarrow> ('k, 'v) dict option"
  where
  "backtrack problem [] assignment = Some assignment"
| "backtrack problem (var # rest) assignment =
     (if dict_contains assignment var then backtrack problem rest assignment
      else try_values problem var (csp_domains problem var) rest assignment)"
| "try_values problem var [] rest assignment = None"
| "try_values problem var (val # vals) rest assignment =
     (if csp_is_consistent problem var val assignment then
        (case backtrack problem rest (dict_setitem assignment var val) of
           Some solution \<Rightarrow> Some solution
         | None \<Rightarrow> try_values problem var vals rest assignment)
      else try_values problem var vals rest assignment)"

text \<open>Modelled from the spec: the entry point starts from the empty assignment.\<close>

definition backtracking_search :: "('k, 'v) csp \<Rightarrow> ('k, 'v) dict option" where
  "backtracking_search problem = backtrack problem (csp_variables problem) []"

section \<open>Predicates used in the statements and proofs\<close>

text \<open>
  No two different regions that list each other as neighbors carry the same color.
\<close>

definition properly_colored :: "('k, 'z) MapColoringProblem_scheme \<Rightarrow> ('k, 'v) dict \<Rightarrow> bool" where
  "properly_colored self A \<longleftrightarrow>
     (\<forall>u w c d. u \<noteq> w \<longrightarrow> w \<in> set (dict_get (neighbors self) u []) \<longrightarrow>
        u \<in> set (dict_get (neighbors self) w []) \<longrightarrow>
        map_of A u = Some c \<longrightarrow> map_of A w = Some d \<longrightarrow> c \<noteq> d)"

text \<open>
  Two entries of a map coloring are compatible unless the second region is listed under
  the first and both carry the same color.
\<close>

definition MapColoring_compatible ::
  "('k, 'z) MapColoringProblem_scheme \<Rightarrow> 'k \<Rightarrow> 'v \<Rightarrow> 'k \<Rightarrow> 'v \<Rightarrow> bool" where
  "MapColoring_compatible self v x w y =
     (\<not> (w \<in> set (dict_get (neighbors self) v []) \<and> y = x))"

text \<open>
  The entry \<open>e\<close> of an assignment makes \<open>CourseSchedulingProblem.is_consistent\<close> return
  \<open>False\<close> for course \<open>v\<close> at \<open>(t, r)\<close>.
\<close>

definition clashes :: "('k \<times> 'k) list \<Rightarrow> 'k \<Rightarrow> 't \<Rightarrow> 'r \<Rightarrow> 'k \<times> 't \<times> 'r \<Rightarrow> bool" where
  "clashes cs v t r e = (case e of (c, t', r') \<Rightarrow>
      c \<noteq> v \<and> t' = t \<and> (r' = r \<or> (v, c) \<in> set cs \<or> (c, v) \<in> set cs))"

text \<open>
  Two entries of a schedule are compatible unless the second makes the check return
  \<open>False\<close> for the first.
\<close>

definition CourseScheduling_compatible ::
  "('k, 't, 'r, 'z) CourseSchedulingProblem_scheme \<Rightarrow> 'k \<Rightarrow> 't \<times> 'r \<Rightarrow> 'k \<Rightarrow> 't \<times> 'r \<Rightarrow> bool"
  where
  "CourseScheduling_compatible self v x w y =
     (\<not> clashes (conflicts self) v (fst x) (snd x) (w, y))"

text \<open>
  No two different courses that form a conflict pair are assigned the same time.
\<close>

definition conflict_free ::
  "('k, 't, 'r, 'z) CourseSchedulingProblem_scheme \<Rightarrow> ('k, 't \<times> 'r) dict \<Rightarrow> bool" where
  "conflict_free self A \<longleftrightarrow>
     (\<forall>c1 c2 t1 r1 t2 r2. c1 \<noteq> c2 \<longrightarrow>
        (c1, c2) \<in> set (conflicts self) \<or> (c2, c1) \<in> set (conflicts self) \<longrightarrow>
        map_of A c1 = Some (t1, r1) \<longrightarrow> map_of A c2 = Some (t2, r2) \<longrightarrow> t1 \<noteq> t2)"

text \<open>
  Every reference stored in the dict lies in the interval from \<open>lo\<close> up to \<open>hi\<close>, and no
  two keys hold the same reference.
\<close>

definition refs_within :: "('k, ref) dict \<Rightarrow> nat \<Rightarrow> nat \<Rightarrow> bool" where
  "refs_within d lo hi \<longleftrightarrow>
     (\<forall>k a. map_of d k = Some a \<longrightarrow> lo \<le> a \<and> a < hi) \<and>
     (\<forall>k k' a. map_of d k = Some a \<longrightarrow> map_of d k' = Some a \<longrightarrow> k = k')"

text \<open>
  Entry \<open>i\<close> of a solution was a candidate of its variable's domain and was accepted
  against the entries inserted before it.
\<close>

definition step_ok :: "('k, 'v) csp \<Rightarrow> ('k, 'v) dict \<Rightarrow> nat \<Rightarrow> bool" where
  "step_ok problem sol i =
     (case sol ! i of (v, x) \<Rightarrow>
        x \<in> set (csp_domains problem v) \<and> csp_is_consistent problem v x (take i sol))"

text \<open>
  \<open>sol\<close> extends the assignment \<open>A\<close> by accepted entries for the variables \<open>vs\<close>, covers
  \<open>vs\<close> and has distinct keys.
\<close>

definition extends_ok ::
  "('k, 'v) csp \<Rightarrow> ('k, 'v) dict \<Rightarrow> 'k list \<Rightarrow> ('k, 'v) dict \<Rightarrow> bool" where
  "extends_ok problem A vs sol \<longleftrightarrow>
     (\<exists>ext. sol = A @ ext \<and> fst ` set ext \<subseteq> set vs) \<and>
     distinct (map fst sol) \<and> set vs \<subseteq> fst ` set sol \<and>
     (\<forall>i. length A \<le> i \<longrightarrow> i < length sol \<longrightarrow> step_ok problem sol i)"

section \<open>Example problems\<close>

text \<open>
  A map of two regions in which only \<open>A\<close> lists \<open>B\<close> as a neighbor, with one color.
\<close>

definition one_sided_map :: "string MapColoringProblem" where
  "one_sided_map =
     fst (MapColoringProblem_init [''A'', ''B''] [(''A'', [''B''])] 0 [[''red'']])"

text \<open>
  The capabilities the solver sees of \<open>one_sided_map\<close>, whose regions all have the domain
  \<open>[red]\<close>, and of the map of the spec's scenario: regions \<open>A\<close>, \<open>B\<close>, \<open>C\<close> in a row, two
  colors.
\<close>

definition one_sided_csp :: "(string, string) csp" where
  "one_sided_csp =
     \<lparr>csp_variables = [''A'', ''B''], csp_domains = (\<lambda>region. [''red'']),
      csp_is_consistent = MapColoring_accepts one_sided_map\<rparr>"

definition row_map :: "string MapColoringProblem" where
  "row_map =
     fst (MapColoringProblem_init [''A'', ''B'', ''C'']
            [(''A'', [''B'']), (''B'', [''A'', ''C'']), (''C'', [''B''])] 0
            [[''red'', ''green'']])"

definition row_csp :: "(string, string) csp" where
  "row_csp =
     \<lparr>csp_variables = [''A'', ''B'', ''C''], csp_domains = (\<lambda>region. [''red'', ''green'']),
      csp_is_consistent = MapColoring_accepts row_map\<rparr>"

text \<open>Two courses that must not meet at the same time, two time slots, one room.\<close>

definition two_courses :: "(string, string, string) CourseSchedulingProblem" where
  "two_courses =
     fst (CourseSchedulingProblem_init [''math'', ''physics''] [''08:00'', ''10:00'']
            [''R101''] [(''math'', ''physics'')] [])"

section \<open>Properties\<close>

subsection \<open>Dicts\<close>

lemma dict_contains_iff: "dict_contains d k \<longleftrightarrow> map_of d k \<noteq> None"
  by (simp add: dict_contains_def map_of_eq_None_iff)

lemma dict_getitem_guarded:
  "dict_contains d k \<Longrightarrow> \<exists>y. map_of d k = Some y \<and> dict_getitem d k = Inr y"
  by (auto simp: dict_contains_iff dict_getitem_def)

lemma dict_getitem_Inr: "dict_getitem A k = Inr v \<longleftrightarrow> map_of A k = Some v"
  by (simp add: dict_getitem_def split: option.splits)

lemma map_of_dict_setitem: "map_of (dict_setitem A k v) = (map_of A)(k \<mapsto> v)"
  by (simp add: dict_setitem_def update_conv')

lemma dict_setitem_absent:
  "\<not> dict_contains A k \<Longrightarrow> dict_setitem A k v = A @ [(k, v)]"
  by (induction A) (auto simp: dict_contains_def dict_setitem_def)

lemma dict_without_split:
  assumes "distinct (map fst (pre @ (v, x) # post))"
  shows "dict_without (pre @ (v, x) # post) v = pre @ post"
proof -
  from assms have "v \<notin> fst ` set pre" "v \<notin> fst ` set post" by auto
  then have "\<forall>e \<in> set pre. fst e \<noteq> v" "\<forall>e \<in> set post. fst e \<noteq> v"
    by force+
  then have "filter (\<lambda>(j, y). j \<noteq> v) pre = pre" "filter (\<lambda>(j, y). j \<noteq> v) post = post"
    by (simp_all add: filter_id_conv case_prod_unfold)
  then show ?thesis by (simp add: dict_without_def)
qed

lemma dict_getitem_split:
  assumes "distinct (map fst (pre @ (v, x) # post))"
  shows "dict_getitem (pre @ (v, x) # post) v = Inr x"
proof -
  from assms have "v \<notin> fst ` set pre" by auto
  then have "map_of pre v = None" by (simp add: map_of_eq_None_iff)
  then show ?thesis by (simp add: dict_getitem_Inr map_add_def)
qed

subsection \<open>The check of the map coloring problem\<close>

lemma check_neighbors_no_error: "\<exists>b. check_neighbors ns val A = Inr b"
proof (induction ns)
  case Nil
  show ?case by auto
next
  case (Cons n ns)
  show ?case
  proof (cases "dict_contains A n")
    case True
    then obtain y where "dict_getitem A n = Inr y"
      using dict_getitem_guarded by fastforce
    with True Cons.IH show ?thesis by auto
  next
    case False
    with Cons.IH show ?thesis by auto
  qed
qed

lemma check_neighbors_True:
  "check_neighbors ns val A = Inr True \<longleftrightarrow> (\<forall>n \<in> set ns. map_of A n \<noteq> Some val)"
proof (induction ns)
  case Nil
  show ?case by simp
next
  case (Cons n ns)
  show ?case
  proof (cases "dict_contains A n")
    case True
    then obtain y where "map_of A n = Some y" "dict_getitem A n = Inr y"
      using dict_getitem_guarded by fastforce
    with True Cons.IH show ?thesis by simp
  next
    case False
    then have "map_of A n = None" by (simp add: dict_contains_iff)
    with False Cons.IH show ?thesis by simp
  qed
qed

lemma map_coloring_result:
  "MapColoringProblem_is_consistent self v x A =
     Inr (\<forall>n \<in> set (dict_get (neighbors self) v []). map_of A n \<noteq> Some x)"
proof -
  obtain b where b: "check_neighbors (dict_get (neighbors self) v []) x A = Inr b"
    using check_neighbors_no_error [of "dict_get (neighbors self) v []" x A] by blast
  then have "b \<longleftrightarrow> (\<forall>n \<in> set (dict_get (neighbors self) v []). map_of A n \<noteq> Some x)"
    using check_neighbors_True [of "dict_get (neighbors self) v []" x A] by auto
  with b show ?thesis by (simp add: MapColoringProblem_is_consistent_def)
qed

lemma map_coloring_pairwise:
  assumes "distinct (map fst A)"
  shows "MapColoring_accepts self v x A
    = (\<forall>(w, y) \<in> set A. MapColoring_compatible self v x w y)"
proof -
  have "map_of A n = Some x \<longleftrightarrow> (n, x) \<in> set A" for n
    using assms by simp
  then show ?thesis
    unfolding MapColoring_accepts_def map_coloring_result MapColoring_compatible_def
    by auto
qed

lemma map_coloring_symmetric:
  assumes "\<forall>v w. w \<in> set (dict_get (neighbors self) v [])
      \<longleftrightarrow> v \<in> set (dict_get (neighbors self) w [])"
  shows "MapColoring_compatible self v x w y = MapColoring_compatible self w y v x"
  using assms by (auto simp: MapColoring_compatible_def)

lemma properly_colored_step:
  assumes "properly_colored self A" and "MapColoring_accepts self v x A"
  shows "properly_colored self (dict_setitem A v x)"
  using assms
  unfolding properly_colored_def MapColoring_accepts_def map_coloring_result map_of_dict_setitem
  by (auto split: if_splits)

lemma build_accepted_invariant:
  assumes "build_accepted acc steps A = Some B" and "I A"
    and "\<And>A v x. I A \<Longrightarrow> acc v x A \<Longrightarrow> I (dict_setitem A v x)"
  shows "I B"
  using assms
proof (induction steps arbitrary: A)
  case Nil
  then show ?case by simp
next
  case (Cons s steps)
  obtain v x where s: "s = (v, x)" by (cases s)
  with Cons.prems(1) have acc: "acc v x A"
    and rest: "build_accepted acc steps (dict_setitem A v x) = Some B"
    by (auto split: if_splits)
  from Cons.prems(2) acc have "I (dict_setitem A v x)" by (rule Cons.prems(3))
  with rest show ?case using Cons.prems(3) by (rule Cons.IH)
qed

subsection \<open>The check of the course scheduling problem\<close>

lemma scan_conflicts_eq:
  "scan_conflicts cs v c = (if (v, c) \<in> set cs \<or> (c, v) \<in> set cs then Some False else None)"
  by (induction cs v c rule: scan_conflicts.induct) auto

lemma scan_items_eq:
  "scan_items cs v t r items = (if \<exists>e \<in> set items. clashes cs v t r e then Some False else None)"
proof (induction items)
  case Nil
  show ?case by simp
next
  case (Cons e items)
  obtain c t' r' where e: "e = (c, t', r')" by (cases e)
  show ?case
  proof (cases "clashes cs v t r e")
    case True
    then show ?thesis
      by (auto simp: e clashes_def scan_conflicts_eq)
  next
    case False
    then have "scan_items cs v t r (e # items) = scan_items cs v t r items"
      by (auto simp: e clashes_def scan_conflicts_eq)
    with False Cons.IH show ?thesis by simp
  qed
qed

lemma course_scheduling_result:
  "CourseSchedulingProblem_is_consistent self v (t, r) A
     \<longleftrightarrow> \<not> (\<exists>e \<in> set (dict_items A). clashes (conflicts self) v t r e)"
  by (simp add: CourseSchedulingProblem_is_consistent_def scan_items_eq)

lemma course_scheduling_pairwise:
  "CourseSchedulingProblem_is_consistent self v x A
     = (\<forall>(w, y) \<in> set A. CourseScheduling_compatible self v x w y)"
  by (cases x)
     (auto simp: course_scheduling_result dict_items_def CourseScheduling_compatible_def)

lemma course_scheduling_symmetric:
  "v \<noteq> w \<Longrightarrow>
     CourseScheduling_compatible self v x w y = CourseScheduling_compatible self w y v x"
  by (cases x; cases y) (auto simp: CourseScheduling_compatible_def clashes_def)

lemma clashes_without:
  "(\<exists>e \<in> set A. clashes cs c t r e)
     \<longleftrightarrow> (\<exists>e \<in> set (dict_items (dict_without A c)). clashes cs c t r e)"
  by (auto simp: clashes_def dict_items_def dict_without_def)

lemma conflict_free_step:
  assumes inv: "conflict_free self A" and acc: "CourseSchedulingProblem_is_consistent self v x A"
  shows "conflict_free self (dict_setitem A v x)"
proof -
  obtain t r where x: "x = (t, r)" by (cases x)
  have no_clash: "\<And>c t' r'. map_of A c = Some (t', r') \<Longrightarrow> \<not> clashes (conflicts self) v t r (c, t', r')"
    using acc unfolding x course_scheduling_result dict_items_def
    by (blast dest: map_of_SomeD)
  show ?thesis
    unfolding conflict_free_def map_of_dict_setitem
  proof (intro allI impI)
    fix c1 c2 t1 r1 t2 r2
    assume ne: "c1 \<noteq> c2"
      and cf: "(c1, c2) \<in> set (conflicts self) \<or> (c2, c1) \<in> set (conflicts self)"
      and a1: "((map_of A)(v \<mapsto> x)) c1 = Some (t1, r1)"
      and a2: "((map_of A)(v \<mapsto> x)) c2 = Some (t2, r2)"
    show "t1 \<noteq> t2"
    proof (cases "c1 = v")
      case True
      with ne a1 a2 have "t1 = t" "map_of A c2 = Some (t2, r2)" "c2 \<noteq> v"
        by (auto simp: x)
      with no_clash [of c2 t2 r2] cf True show ?thesis
        by (auto simp: clashes_def)
    next
      case False
      note c1 = this
      show ?thesis
      proof (cases "c2 = v")
        case True
        with ne a1 a2 have "t2 = t" "map_of A c1 = Some (t1, r1)" "c1 \<noteq> v"
          by (auto simp: x)
        with no_clash [of c1 t1 r1] cf True show ?thesis
          by (auto simp: clashes_def)
      next
        case False
        with c1 a1 a2 have "map_of A c1 = Some (t1, r1)" "map_of A c2 = Some (t2, r2)"
          by auto
        with inv ne cf show ?thesis
          unfolding conflict_free_def by blast
      qed
    qed
  qed
qed

subsection \<open>The calls on the program state\<close>

lemma check_neighbors_st_eq:
  "check_neighbors_st ns val s = (check_neighbors ns val (mc_assignment s), s)"
  by (induction ns) (simp_all split: sum.splits)

lemma MapColoringProblem_is_consistent_st_eq:
  "MapColoringProblem_is_consistent_st v x s =
     (MapColoringProblem_is_consistent (mc_self s) v x (mc_assignment s), s)"
  by (simp add: MapColoringProblem_is_consistent_st_def MapColoringProblem_is_consistent_def
      check_neighbors_st_eq)

lemma scan_conflicts_st_eq:
  "scan_conflicts_st cs v c s = (scan_conflicts cs v c, s)"
  by (induction cs v c rule: scan_conflicts.induct) simp_all

lemma scan_items_st_eq:
  "scan_items_st v t r items s = (scan_items (conflicts (cs_self s)) v t r items, s)"
proof (induction items arbitrary: t r)
  case Nil
  show ?case by simp
next
  case (Cons e items)
  obtain c t' r' where e: "e = (c, t', r')" by (cases e)
  show ?case
    by (simp add: e Cons.IH scan_conflicts_st_eq split: option.splits)
qed

lemma CourseSchedulingProblem_is_consistent_st_eq:
  "CourseSchedulingProblem_is_consistent_st c val s =
     (CourseSchedulingProblem_is_consistent (cs_self s) c val (cs_assignment s), s)"
  by (cases val)
     (simp add: CourseSchedulingProblem_is_consistent_st_def CourseSchedulingProblem_is_consistent_def
        scan_items_st_eq split: option.splits)

subsection \<open>Construction\<close>

lemma refs_within_setitem:
  assumes inv: "refs_within d lo hi" and le: "lo \<le> hi"
  shows "refs_within (dict_setitem d k hi) lo (Suc hi)"
proof -
  from inv have bound: "\<And>j a. map_of d j = Some a \<Longrightarrow> lo \<le> a \<and> a < hi"
    and inj: "\<And>j j' a. map_of d j = Some a \<Longrightarrow> map_of d j' = Some a \<Longrightarrow> j = j'"
    unfolding refs_within_def by blast+
  show ?thesis
    unfolding refs_within_def map_of_dict_setitem
  proof (intro conjI allI impI)
    fix j a assume "((map_of d)(k \<mapsto> hi)) j = Some a"
    then have "a = hi \<or> map_of d j = Some a" by (auto split: if_splits)
    with bound le show "lo \<le> a" by auto
  next
    fix j a assume "((map_of d)(k \<mapsto> hi)) j = Some a"
    then have "a = hi \<or> map_of d j = Some a" by (auto split: if_splits)
    with bound [of j a] show "a < Suc hi" by auto
  next
    fix j j' a
    assume 1: "((map_of d)(k \<mapsto> hi)) j = Some a" and 2: "((map_of d)(k \<mapsto> hi)) j' = Some a"
    show "j = j'"
    proof (cases "a = hi")
      case True
      with 1 2 bound [of j hi] bound [of j' hi] show ?thesis
        by (auto split: if_splits)
    next
      case False
      with 1 2 have "map_of d j = Some a" "map_of d j' = Some a"
        by (auto split: if_splits)
      then show ?thesis by (rule inj)
    qed
  qed
qed

lemma copy_for_each_spec:
  assumes "copy_for_each keys src d h = (d', h')" and "src < length h"
    and "refs_within d lo (length h)" and "lo \<le> length h"
  shows "h' = h @ replicate (length keys) (h ! src) \<and> refs_within d' lo (length h') \<and>
    dom (map_of d') = dom (map_of d) \<union> set keys"
  using assms
proof (induction keys arbitrary: d h)
  case Nil
  then show ?case by simp
next
  case (Cons key keys)
  let ?d1 = "dict_setitem d key (length h)" and ?h1 = "h @ [h ! src]"
  from Cons.prems(1) have run: "copy_for_each keys src ?d1 ?h1 = (d', h')"
    by (simp add: list_copy_def list_new_def)
  have src1: "src < length ?h1" using Cons.prems(2) by simp
  have inv1: "refs_within ?d1 lo (length ?h1)"
    using refs_within_setitem [OF Cons.prems(3) Cons.prems(4)] by simp
  have lo1: "lo \<le> length ?h1" using Cons.prems(4) by simp
  have same: "?h1 ! src = h ! src" using Cons.prems(2) by (simp add: nth_append)
  from Cons.IH [OF run src1 inv1 lo1] same show ?case
    by (auto simp: map_of_dict_setitem replicate_app_Cons_same)
qed

lemma map_coloring_init_unfold:
  "MapColoringProblem_init regions nbs colors h = (P, h') \<Longrightarrow>
     \<exists>ds. copy_for_each regions colors [] h = (ds, h') \<and> variables P = regions \<and>
       domains P = ds \<and> neighbors P = nbs"
  by (auto simp: MapColoringProblem_init_def CSPProblem_init_def CSPProblem.extend_def
      MapColoringProblem.fields_def split: prod.splits)

lemma course_scheduling_init_unfold:
  "CourseSchedulingProblem_init courses ts rs cs h = (P, h') \<Longrightarrow>
     \<exists>ds. copy_for_each courses (length h) [] (h @ [possible_slots ts rs]) = (ds, h') \<and>
       variables P = courses \<and> domains P = ds \<and> time_slots P = ts \<and> rooms P = rs \<and>
       conflicts P = cs"
  by (auto simp: CourseSchedulingProblem_init_def CSPProblem_init_def CSPProblem.extend_def
      CourseSchedulingProblem.fields_def list_new_def split: prod.splits)

lemma possible_slots_product: "possible_slots ts rs = List.product ts rs"
  by (induction ts) (simp_all add: possible_slots_def)

lemma fresh_domains:
  assumes run: "copy_for_each keys src [] h = (ds, h')" and src: "src < length h"
    and key: "key \<in> set keys"
  shows "\<exists>a. dict_getitem ds key = Inr a \<and> length h \<le> a \<and> a < length h' \<and>
           h' ! a = h ! src \<and> (\<forall>k'. k' \<noteq> key \<longrightarrow> dict_getitem ds k' \<noteq> Inr a) \<and>
           (\<forall>b ys. b < length h \<longrightarrow> (h'[b := ys]) ! a = h ! src)"
    and "take (length h) h' = h"
proof -
  have "refs_within ([] :: ('a, ref) dict) (length h) (length h)"
    by (simp add: refs_within_def)
  note all = copy_for_each_spec [OF run src this le_refl]
  note heap = all [THEN conjunct1]
  note inv = all [THEN conjunct2, THEN conjunct1]
  have keys: "dom (map_of ds) = set keys"
    using all [THEN conjunct2, THEN conjunct2] by simp
  from heap show "take (length h) h' = h" by simp
  from keys key obtain a where a: "map_of ds key = Some a" by auto
  with inv have range: "length h \<le> a" "a < length h'"
    and own: "\<And>k'. map_of ds k' = Some a \<Longrightarrow> k' = key"
    unfolding refs_within_def by blast+
  from heap range have content: "h' ! a = h ! src"
    by (simp add: nth_append)
  have "\<forall>b ys. b < length h \<longrightarrow> (h'[b := ys]) ! a = h ! src"
    using range content by simp
  with a range content own
  show "\<exists>a. dict_getitem ds key = Inr a \<and> length h \<le> a \<and> a < length h' \<and>
           h' ! a = h ! src \<and> (\<forall>k'. k' \<noteq> key \<longrightarrow> dict_getitem ds k' \<noteq> Inr a) \<and>
           (\<forall>b ys. b < length h \<longrightarrow> (h'[b := ys]) ! a = h ! src)"
    unfolding dict_getitem_Inr by blast
qed

lemma empty_domains:
  assumes run: "copy_for_each keys src [] h = (ds, h')" and src: "src < length h"
    and key: "key \<in> set keys"
  shows "\<exists>a. dict_getitem ds key = Inr a \<and> h' ! a = h ! src"
  using fresh_domains(1) [OF run src key] by blast

lemma row_major_div: "j < (n::nat) \<Longrightarrow> (i * n + j) div n = i"
  by (simp add: add.commute)

lemma row_major_mod: "j < (n::nat) \<Longrightarrow> (i * n + j) mod n = j"
  by (simp add: add.commute)

subsection \<open>The solver\<close>

lemma extends_ok_step:
  assumes ext: "extends_ok P (A @ [(var, val)]) rest sol"
    and dom: "val \<in> set (csp_domains P var)"
    and acc: "csp_is_consistent P var val A"
  shows "extends_ok P A (var # rest) sol"
proof -
  from ext obtain ext' where sol: "sol = (A @ [(var, val)]) @ ext'"
    and keys: "fst ` set ext' \<subseteq> set rest"
    and dist: "distinct (map fst sol)"
    and cover: "set rest \<subseteq> fst ` set sol"
    and steps: "\<And>i. length A + 1 \<le> i \<Longrightarrow> i < length sol \<Longrightarrow> step_ok P sol i"
    unfolding extends_ok_def by auto
  have here: "step_ok P sol (length A)"
    using dom acc by (simp add: step_ok_def sol)
  have all: "\<forall>i. length A \<le> i \<longrightarrow> i < length sol \<longrightarrow> step_ok P sol i"
  proof (intro allI impI)
    fix i assume "length A \<le> i" "i < length sol"
    then show "step_ok P sol i"
      using here steps [of i] by (cases "i = length A") auto
  qed
  have "sol = A @ ((var, val) # ext') \<and> fst ` set ((var, val) # ext') \<subseteq> set (var # rest)"
    using sol keys by auto
  then have "\<exists>ext. sol = A @ ext \<and> fst ` set ext \<subseteq> set (var # rest)" by blast
  moreover have "set (var # rest) \<subseteq> fst ` set sol"
    using cover by (auto simp: sol)
  ultimately show ?thesis
    unfolding extends_ok_def using dist all by blast
qed

lemma extends_ok_skip:
  assumes ext: "extends_ok P A rest sol" and there: "dict_contains A var"
  shows "extends_ok P A (var # rest) sol"
proof -
  from ext obtain ext' where sol: "sol = A @ ext'" and keys: "fst ` set ext' \<subseteq> set rest"
    unfolding extends_ok_def by auto
  then have "\<exists>ext. sol = A @ ext \<and> fst ` set ext \<subseteq> set (var # rest)" by auto
  moreover from there have "var \<in> fst ` set sol"
    by (auto simp: dict_contains_def sol)
  ultimately show ?thesis
    using ext unfolding extends_ok_def by auto
qed

lemma backtrack_extends:
  "backtrack P vs A = Some sol \<Longrightarrow> distinct (map fst A) \<Longrightarrow> extends_ok P A vs sol"
  and "try_values P var vals rest A = Some sol \<Longrightarrow> distinct (map fst A) \<Longrightarrow>
     \<not> dict_contains A var \<Longrightarrow> set vals \<subseteq> set (csp_domains P var) \<Longrightarrow>
     extends_ok P A (var # rest) sol"
proof (induction P vs A and P var vals rest A rule: backtrack_try_values.induct)
  case (1 problem assignment)
  then show ?case by (simp add: extends_ok_def)
next
  case (2 problem var rest assignment)
  show ?case
  proof (cases "dict_contains assignment var")
    case True
    with "2.prems" have "backtrack problem rest assignment = Some sol" by simp
    from "2.IH"(1) [OF True this "2.prems"(2)] True show ?thesis
      by (rule extends_ok_skip)
  next
    case False
    with "2.prems" have
      "try_values problem var (csp_domains problem var) rest assignment = Some sol"
      by simp
    from "2.IH"(2) [OF False this "2.prems"(2) False] show ?thesis by simp
  qed
next
  case (3 problem var rest assignment)
  then show ?case by simp
next
  case (4 problem var val vals rest assignment)
  note absent = \<open>\<not> dict_contains assignment var\<close>
  have vals: "set vals \<subseteq> set (csp_domains problem var)"
    and val: "val \<in> set (csp_domains problem var)"
    using "4.prems"(4) by auto
  show ?case
  proof (cases "csp_is_consistent problem var val assignment")
    case True
    note acc = this
    let ?A1 = "dict_setitem assignment var val"
    have A1: "?A1 = assignment @ [(var, val)]"
      using absent by (rule dict_setitem_absent)
    show ?thesis
    proof (cases "backtrack problem rest ?A1")
      case (Some s)
      with acc "4.prems"(1) have s: "s = sol" by simp
      have "distinct (map fst ?A1)"
        using "4.prems"(2) absent by (simp add: A1 dict_contains_def)
      from "4.IH"(1) [OF acc Some [unfolded s] this]
      have "extends_ok problem (assignment @ [(var, val)]) rest sol"
        by (simp only: A1)
      then show ?thesis using val acc by (rule extends_ok_step)
    next
      case None
      with acc "4.prems"(1) have "try_values problem var vals rest assignment = Some sol"
        by simp
      from "4.IH"(2) [OF acc None this "4.prems"(2) absent vals] show ?thesis .
    qed
  next
    case False
    with "4.prems"(1) have "try_values problem var vals rest assignment = Some sol"
      by simp
    from "4.IH"(3) [OF False this "4.prems"(2) absent vals] show ?thesis .
  qed
qed

subsection \<open>The examples\<close>

lemma one_sided_map_neighbors: "neighbors one_sided_map = [(''A'', [''B''])]"
  by (simp add: one_sided_map_def MapColoringProblem_init_def CSPProblem_init_def
      list_copy_def list_new_def dict_setitem_def CSPProblem.extend_def
      MapColoringProblem.fields_def split: prod.splits)

lemma row_map_neighbors:
  "neighbors row_map = [(''A'', [''B'']), (''B'', [''A'', ''C'']), (''C'', [''B''])]"
  by (simp add: row_map_def MapColoringProblem_init_def CSPProblem_init_def
      list_copy_def list_new_def dict_setitem_def CSPProblem.extend_def
      MapColoringProblem.fields_def split: prod.splits)

lemma row_map_symmetric:
  "MapColoring_compatible row_map v x w y = MapColoring_compatible row_map w y v x"
  by (rule map_coloring_symmetric) (auto simp: row_map_neighbors dict_get_def)

lemma two_courses_conflicts: "conflicts two_courses = [(''math'', ''physics'')]"
  by (simp add: two_courses_def CourseSchedulingProblem_init_def CSPProblem_init_def
      list_copy_def list_new_def dict_setitem_def CSPProblem.extend_def
      CourseSchedulingProblem.fields_def split: prod.splits)

section \<open>The claims\<close>

text \<open>
  C1 (as amended).  \<open>MapColoringProblem.is_consistent(v, x, A)\<close> raises nothing and
  returns \<open>True\<close> exactly when no neighbor listed under \<open>v\<close> is assigned \<open>x\<close> in \<open>A\<close>.
  In an assignment built only from accepted pairs, two different assigned regions that
  list each other as neighbors carry different colors.
\<close>

theorem map_coloring_check_and_coloring:
  "MapColoringProblem_is_consistent self v x A =
     Inr (\<not> (\<exists>n \<in> set (dict_get (neighbors self) v []).
                dict_contains A n \<and> dict_getitem A n = Inr x))
   \<and> (build_accepted (MapColoring_accepts self) steps [] = Some B \<longrightarrow>
        u \<noteq> w \<longrightarrow>
        w \<in> set (dict_get (neighbors self) u []) \<longrightarrow>
        u \<in> set (dict_get (neighbors self) w []) \<longrightarrow>
        dict_getitem B u = Inr c \<longrightarrow> dict_getitem B w = Inr d \<longrightarrow> c \<noteq> d)"
proof (intro conjI impI)
  have "(\<exists>n \<in> set (dict_get (neighbors self) v []). dict_contains A n \<and> dict_getitem A n = Inr x)
      \<longleftrightarrow> \<not> (\<forall>n \<in> set (dict_get (neighbors self) v []). map_of A n \<noteq> Some x)"
    by (auto simp: dict_getitem_Inr dict_contains_iff)
  then show "MapColoringProblem_is_consistent self v x A =
     Inr (\<not> (\<exists>n \<in> set (dict_get (neighbors self) v []).
                dict_contains A n \<and> dict_getitem A n = Inr x))"
    by (simp add: map_coloring_result)
next
  assume built: "build_accepted (MapColoring_accepts self) steps [] = Some B"
    and adj: "u \<noteq> w" "w \<in> set (dict_get (neighbors self) u [])"
      "u \<in> set (dict_get (neighbors self) w [])"
    and col: "dict_getitem B u = Inr c" "dict_getitem B w = Inr d"
  have "properly_colored self B"
  proof (rule build_accepted_invariant [where I = "properly_colored self", OF built])
    show "properly_colored self []" by (simp add: properly_colored_def)
  qed (rule properly_colored_step)
  with adj col show "c \<noteq> d"
    unfolding properly_colored_def dict_getitem_Inr by blast
qed

theorem map_coloring_check_and_coloring_witness:
  "MapColoringProblem_is_consistent \<lparr>variables = [''A'', ''B''], domains = [],
       neighbors = [(''A'', [''B'']), (''B'', [''A''])]\<rparr> ''B'' ''red'' [(''A'', ''red'')]
     = Inr False
   \<and> build_accepted (MapColoring_accepts \<lparr>variables = [''A'', ''B''], domains = [],
         neighbors = [(''A'', [''B'']), (''B'', [''A''])]\<rparr>)
       [(''A'', ''red''), (''B'', ''green'')] [] = Some [(''A'', ''red''), (''B'', ''green'')]
   \<and> ''red'' \<noteq> ''green''"
  using map_coloring_check_and_coloring
    [of "\<lparr>variables = [''A'', ''B''], domains = [],
           neighbors = [(''A'', [''B'']), (''B'', [''A''])]\<rparr>"
        "''B''" "''red''" "[(''A'', ''red'')]"
        "[(''A'', ''red''), (''B'', ''green'')]" "[(''A'', ''red''), (''B'', ''green'')]"
        "''A''" "''B''" "''red''" "''green''"]
  by (simp add: MapColoring_accepts_def MapColoringProblem_is_consistent_def dict_get_def
      dict_contains_def dict_getitem_def dict_setitem_def)

text \<open>
  C1 as stated fails where only one of two regions lists the other: on \<open>one_sided_map\<close>
  both \<open>A = red\<close> and then \<open>B = red\<close> are accepted, although \<open>B\<close> is listed under \<open>A\<close>.
\<close>

theorem map_coloring_one_sided_counterexample:
  "build_accepted (MapColoring_accepts one_sided_map) [(''A'', ''red''), (''B'', ''red'')] []
     = Some [(''A'', ''red''), (''B'', ''red'')]
   \<and> ''B'' \<in> set (dict_get (neighbors one_sided_map) ''A'' [])
   \<and> dict_getitem [(''A'', ''red''), (''B'', ''red'')] ''A'' = Inr ''red''
   \<and> dict_getitem [(''A'', ''red''), (''B'', ''red'')] ''B'' = Inr ''red''"
  by (simp add: one_sided_map_neighbors MapColoring_accepts_def MapColoringProblem_is_consistent_def
      dict_get_def dict_contains_def dict_getitem_def dict_setitem_def)

text \<open>
  C2.  \<open>CourseSchedulingProblem.is_consistent(c, (t, r), A)\<close> returns \<open>False\<close> exactly when
  some course \<open>c'\<close> other than \<open>c\<close> is assigned in \<open>A\<close> the same time and the same room,
  or the same time while \<open>(c, c')\<close> or \<open>(c', c)\<close> is in the conflicts list.  In an assignment
  built only from accepted pairs two courses of a conflict pair never have the same time;
  two courses are accepted in the same room at different times.
\<close>

theorem course_scheduling_check:
  "(CourseSchedulingProblem_is_consistent self c (t, r) A = False \<longleftrightarrow>
      (\<exists>c' t' r'. (c', (t', r')) \<in> set (dict_items A) \<and> c' \<noteq> c \<and> t' = t \<and>
         (r' = r \<or> (c, c') \<in> set (conflicts self) \<or> (c', c) \<in> set (conflicts self))))
   \<and> (build_accepted (CourseSchedulingProblem_is_consistent self) steps [] = Some B \<longrightarrow>
        c1 \<noteq> c2 \<longrightarrow>
        (c1, c2) \<in> set (conflicts self) \<or> (c2, c1) \<in> set (conflicts self) \<longrightarrow>
        dict_getitem B c1 = Inr (t1, r1) \<longrightarrow> dict_getitem B c2 = Inr (t2, r2) \<longrightarrow>
        t1 \<noteq> t2)
   \<and> (c1 \<noteq> c2 \<longrightarrow> t1 \<noteq> t2 \<longrightarrow>
        build_accepted (CourseSchedulingProblem_is_consistent self)
          [(c1, (t1, r)), (c2, (t2, r))] [] = Some [(c1, (t1, r)), (c2, (t2, r))])"
proof (intro conjI impI)
  show "CourseSchedulingProblem_is_consistent self c (t, r) A = False \<longleftrightarrow>
      (\<exists>c' t' r'. (c', (t', r')) \<in> set (dict_items A) \<and> c' \<noteq> c \<and> t' = t \<and>
         (r' = r \<or> (c, c') \<in> set (conflicts self) \<or> (c', c) \<in> set (conflicts self)))"
    unfolding course_scheduling_result clashes_def by auto
next
  assume built: "build_accepted (CourseSchedulingProblem_is_consistent self) steps [] = Some B"
    and pair: "c1 \<noteq> c2"
      "(c1, c2) \<in> set (conflicts self) \<or> (c2, c1) \<in> set (conflicts self)"
    and slots: "dict_getitem B c1 = Inr (t1, r1)" "dict_getitem B c2 = Inr (t2, r2)"
  have "conflict_free self B"
  proof (rule build_accepted_invariant [where I = "conflict_free self", OF built])
    show "conflict_free self []" by (simp add: conflict_free_def)
  qed (rule conflict_free_step)
  with pair slots show "t1 \<noteq> t2"
    unfolding conflict_free_def dict_getitem_Inr by blast
next
  assume "c1 \<noteq> c2" "t1 \<noteq> t2"
  then show "build_accepted (CourseSchedulingProblem_is_consistent self)
          [(c1, (t1, r)), (c2, (t2, r))] [] = Some [(c1, (t1, r)), (c2, (t2, r))]"
    by (simp add: course_scheduling_result clashes_def dict_items_def dict_setitem_def)
qed

theorem course_scheduling_check_witness:
  "CourseSchedulingProblem_is_consistent two_courses ''physics'' (''08:00'', ''R101'')
       [(''math'', (''08:00'', ''R101''))] = False
   \<and> build_accepted (CourseSchedulingProblem_is_consistent two_courses)
         [(''math'', (''08:00'', ''R101'')), (''physics'', (''10:00'', ''R101''))] []
       = Some [(''math'', (''08:00'', ''R101'')), (''physics'', (''10:00'', ''R101''))]
   \<and> ''08:00'' \<noteq> ''10:00''"
  using course_scheduling_check
    [of two_courses "''physics''" "''08:00''" "''R101''" "[(''math'', (''08:00'', ''R101''))]"
        "[(''math'', (''08:00'', ''R101'')), (''physics'', (''10:00'', ''R101''))]"
        "[(''math'', (''08:00'', ''R101'')), (''physics'', (''10:00'', ''R101''))]"
        "''math''" "''physics''" "''08:00''" "''R101''" "''10:00''" "''R101''"]
  by (simp add: two_courses_conflicts dict_items_def dict_getitem_def)

text \<open>
  C3 (as amended).  Whenever \<open>backtracking_search\<close> returns a solution, every variable of
  the problem is assigned, and the value of every variable \<open>v\<close> is a candidate of its
  domain that \<open>is_consistent\<close> accepted against the part of the solution assigned before
  \<open>v\<close>.  If the check is a test of the candidate against each assigned entry that is
  symmetric in the two entries, then \<open>is_consistent(v, solution[v], _)\<close> also holds on the
  solution restricted to the other variables.
\<close>

theorem backtracking_search_solution:
  assumes run: "backtracking_search P = Some sol"
  shows "(\<forall>v \<in> set (csp_variables P). dict_contains sol v)
    \<and> (\<forall>v \<in> set (csp_variables P). \<exists>pre x post.
          sol = pre @ (v, x) # post \<and> dict_getitem sol v = Inr x \<and>
          x \<in> set (csp_domains P v) \<and> csp_is_consistent P v x pre)
    \<and> ((\<forall>v x A. distinct (map fst A) \<longrightarrow> \<not> dict_contains A v \<longrightarrow>
            csp_is_consistent P v x A = (\<forall>(w, y) \<in> set A. allowed v x w y)) \<longrightarrow>
        (\<forall>v x w y. v \<noteq> w \<longrightarrow> allowed v x w y = allowed w y v x) \<longrightarrow>
        (\<forall>v \<in> set (csp_variables P). \<exists>x.
            dict_getitem sol v = Inr x \<and> csp_is_consistent P v x (dict_without sol v)))"
proof -
  from run have "extends_ok P [] (csp_variables P) sol"
    unfolding backtracking_search_def by (rule backtrack_extends(1)) simp
  then have dist: "distinct (map fst sol)"
    and cover: "set (csp_variables P) \<subseteq> fst ` set sol"
    and steps: "\<And>i. i < length sol \<Longrightarrow> step_ok P sol i"
    unfolding extends_ok_def by auto
  have split: "\<exists>pre x post. sol = pre @ (v, x) # post \<and> dict_getitem sol v = Inr x \<and>
      x \<in> set (csp_domains P v) \<and> csp_is_consistent P v x pre"
    if "v \<in> set (csp_variables P)" for v
  proof -
    from that cover obtain x where "(v, x) \<in> set sol" by auto
    then obtain i where i: "i < length sol" "sol ! i = (v, x)"
      by (auto simp: in_set_conv_nth)
    then have sol: "sol = take i sol @ (v, x) # drop (Suc i) sol"
      by (metis id_take_nth_drop)
    from steps [OF i(1)] i(2)
    have "x \<in> set (csp_domains P v)" "csp_is_consistent P v x (take i sol)"
      by (simp_all add: step_ok_def)
    moreover have "dict_getitem sol v = Inr x"
      using dist sol dict_getitem_split by metis
    ultimately show ?thesis using sol by blast
  qed
  have full: "\<exists>x. dict_getitem sol v = Inr x \<and> csp_is_consistent P v x (dict_without sol v)"
    if pairwise: "\<forall>v x A. distinct (map fst A) \<longrightarrow> \<not> dict_contains A v \<longrightarrow>
            csp_is_consistent P v x A = (\<forall>(w, y) \<in> set A. allowed v x w y)"
      and sym: "\<forall>v x w y. v \<noteq> w \<longrightarrow> allowed v x w y = allowed w y v x"
      and v: "v \<in> set (csp_variables P)" for v
  proof -
    from split [OF v] obtain pre x post where sol: "sol = pre @ (v, x) # post"
      and get: "dict_getitem sol v = Inr x" and acc: "csp_is_consistent P v x pre"
      by blast
    from dist sol have d: "distinct (map fst (pre @ (v, x) # post))" by simp
    then have others: "dict_without sol v = pre @ post"
      unfolding sol by (rule dict_without_split)
    from d have dpre: "distinct (map fst pre)" and vpre: "\<not> dict_contains pre v"
      and drest: "distinct (map fst (pre @ post))" and vrest: "\<not> dict_contains (pre @ post) v"
      by (auto simp: dict_contains_def)
    from acc pairwise dpre vpre have before: "\<forall>(w, y) \<in> set pre. allowed v x w y"
      by blast
    have after: "allowed v x w y" if wy: "(w, y) \<in> set post" for w y
    proof -
      from wy obtain p1 p2 where post: "post = p1 @ (w, y) # p2"
        by (auto simp: in_set_conv_decomp)
      let ?j = "length pre + Suc (length p1)"
      have j: "?j < length sol" "sol ! ?j = (w, y)" "take ?j sol = pre @ (v, x) # p1"
        by (simp_all add: sol post nth_append)
      from steps [OF j(1)] j(2,3) have accw: "csp_is_consistent P w y (pre @ (v, x) # p1)"
        by (simp add: step_ok_def)
      from d have "distinct (map fst (pre @ (v, x) # p1))"
        and "\<not> dict_contains (pre @ (v, x) # p1) w" and ne: "v \<noteq> w"
        by (auto simp: post dict_contains_def)
      with accw pairwise have "\<forall>(u, z) \<in> set (pre @ (v, x) # p1). allowed w y u z"
        by blast
      then have "allowed w y v x" by auto
      with sym ne show ?thesis by blast
    qed
    from before after have "\<forall>(w, y) \<in> set (pre @ post). allowed v x w y" by auto
    with pairwise drest vrest have "csp_is_consistent P v x (pre @ post)" by blast
    with get others show ?thesis by simp
  qed
  from cover have "\<forall>v \<in> set (csp_variables P). dict_contains sol v"
    by (auto simp: dict_contains_def)
  with split full show ?thesis by blast
qed

theorem backtracking_search_solution_witness:
  "backtracking_search row_csp = Some [(''A'', ''red''), (''B'', ''green''), (''C'', ''red'')]
   \<and> dict_contains [(''A'', ''red''), (''B'', ''green''), (''C'', ''red'')] ''A''
   \<and> dict_contains [(''A'', ''red''), (''B'', ''green''), (''C'', ''red'')] ''B''
   \<and> dict_contains [(''A'', ''red''), (''B'', ''green''), (''C'', ''red'')] ''C''
   \<and> csp_is_consistent row_csp ''A'' ''red''
        (dict_without [(''A'', ''red''), (''B'', ''green''), (''C'', ''red'')] ''A'')
   \<and> csp_is_consistent row_csp ''B'' ''green''
        (dict_without [(''A'', ''red''), (''B'', ''green''), (''C'', ''red'')] ''B'')
   \<and> csp_is_consistent row_csp ''C'' ''red''
        (dict_without [(''A'', ''red''), (''B'', ''green''), (''C'', ''red'')] ''C'')"
proof -
  have run: "backtracking_search row_csp
      = Some [(''A'', ''red''), (''B'', ''green''), (''C'', ''red'')]"
    by (simp add: backtracking_search_def row_csp_def MapColoring_accepts_def
        MapColoringProblem_is_consistent_def row_map_neighbors dict_get_def dict_contains_def
        dict_getitem_def dict_setitem_def)
  have pairwise: "\<forall>v x A. distinct (map fst A) \<longrightarrow> \<not> dict_contains A v \<longrightarrow>
      csp_is_consistent row_csp v x A
        = (\<forall>(w, y) \<in> set A. MapColoring_compatible row_map v x w y)"
    by (simp add: row_csp_def map_coloring_pairwise)
  have sym: "\<forall>v x w y. v \<noteq> w \<longrightarrow>
      MapColoring_compatible row_map v x w y = MapColoring_compatible row_map w y v x"
    by (simp add: row_map_symmetric)
  from backtracking_search_solution [OF run, of "MapColoring_compatible row_map"] pairwise sym
  have "\<forall>v \<in> set (csp_variables row_csp). \<exists>x.
      dict_getitem [(''A'', ''red''), (''B'', ''green''), (''C'', ''red'')] v = Inr x \<and>
      csp_is_consistent row_csp v x
        (dict_without [(''A'', ''red''), (''B'', ''green''), (''C'', ''red'')] v)"
    by blast
  then have "csp_is_consistent row_csp ''A'' ''red''
        (dict_without [(''A'', ''red''), (''B'', ''green''), (''C'', ''red'')] ''A'')
   \<and> csp_is_consistent row_csp ''B'' ''green''
        (dict_without [(''A'', ''red''), (''B'', ''green''), (''C'', ''red'')] ''B'')
   \<and> csp_is_consistent row_csp ''C'' ''red''
        (dict_without [(''A'', ''red''), (''B'', ''green''), (''C'', ''red'')] ''C'')"
    by (simp add: row_csp_def dict_getitem_def)
  with run show ?thesis by (simp add: dict_contains_def)
qed

text \<open>
  C3 as stated fails on \<open>one_sided_map\<close>: the search returns \<open>A = red\<close>, \<open>B = red\<close>, and
  \<open>is_consistent(A, red, _)\<close> is false on the solution restricted to \<open>B\<close>.
\<close>

theorem backtracking_search_one_sided_counterexample:
  "backtracking_search one_sided_csp = Some [(''A'', ''red''), (''B'', ''red'')]
   \<and> dict_getitem [(''A'', ''red''), (''B'', ''red'')] ''A'' = Inr ''red''
   \<and> \<not> csp_is_consistent one_sided_csp ''A'' ''red''
         (dict_without [(''A'', ''red''), (''B'', ''red'')] ''A'')"
  by (simp add: backtracking_search_def one_sided_csp_def MapColoring_accepts_def
      MapColoringProblem_is_consistent_def one_sided_map_neighbors dict_get_def dict_contains_def
      dict_getitem_def dict_setitem_def dict_without_def)

text \<open>
  C4 (as amended).  Neither constructor validates the problem definition, and the check
  of a \<open>MapColoringProblem\<close> never raises.  The constructors store the variables, the
  neighbors mapping, the time slots, the rooms and the conflicts as they are given; with
  an empty colors list, or with no time slot or no room, every variable gets an empty
  domain.  \<open>MapColoringProblem.is_consistent\<close> returns a boolean on every input, and
  returns \<open>True\<close> when none of the listed neighbors is assigned, as is the case for names
  that are no region.
\<close>

theorem no_validation:
  "(MapColoringProblem_init regions nbs colors h = (P, h') \<longrightarrow>
      variables P = regions \<and> neighbors P = nbs \<and>
      (colors < length h \<longrightarrow> h ! colors = [] \<longrightarrow>
         (\<forall>region \<in> set regions. domain_of h' P region = Inr [])))
   \<and> (CourseSchedulingProblem_init courses ts rs cs g = (Q, g') \<longrightarrow>
      variables Q = courses \<and> time_slots Q = ts \<and> rooms Q = rs \<and> conflicts Q = cs \<and>
      (ts = [] \<or> rs = [] \<longrightarrow> (\<forall>course \<in> set courses. domain_of g' Q course = Inr [])))
   \<and> (\<exists>b. MapColoringProblem_is_consistent self v x A = Inr b)
   \<and> ((\<forall>n \<in> set (dict_get (neighbors self) v []). \<not> dict_contains A n) \<longrightarrow>
        MapColoringProblem_is_consistent self v x A = Inr True)"
proof (intro conjI impI ballI)
  assume init: "MapColoringProblem_init regions nbs colors h = (P, h')"
  from map_coloring_init_unfold [OF init] show "variables P = regions" "neighbors P = nbs"
    by auto
next
  fix region
  assume init: "MapColoringProblem_init regions nbs colors h = (P, h')"
    and valid: "colors < length h" and none: "h ! colors = []"
    and region: "region \<in> set regions"
  from map_coloring_init_unfold [OF init]
  have run: "copy_for_each regions colors [] h = (domains P, h')" by auto
  from empty_domains [OF run valid region] none
  show "domain_of h' P region = Inr []"
    by (auto simp: domain_of_def)
next
  assume init: "CourseSchedulingProblem_init courses ts rs cs g = (Q, g')"
  from course_scheduling_init_unfold [OF init]
  show "variables Q = courses" "time_slots Q = ts" "rooms Q = rs" "conflicts Q = cs"
    by auto
next
  fix course
  assume init: "CourseSchedulingProblem_init courses ts rs cs g = (Q, g')"
    and none: "ts = [] \<or> rs = []" and course: "course \<in> set courses"
  let ?g1 = "g @ [possible_slots ts rs]"
  from course_scheduling_init_unfold [OF init]
  have run: "copy_for_each courses (length g) [] ?g1 = (domains Q, g')" by auto
  have valid: "length g < length ?g1" by simp
  from none have "possible_slots ts rs = []"
    by (auto simp: possible_slots_def)
  with empty_domains [OF run valid course]
  show "domain_of g' Q course = Inr []"
    by (auto simp: domain_of_def)
next
  show "\<exists>b. MapColoringProblem_is_consistent self v x A = Inr b"
    by (simp add: map_coloring_result)
next
  assume "\<forall>n \<in> set (dict_get (neighbors self) v []). \<not> dict_contains A n"
  then show "MapColoringProblem_is_consistent self v x A = Inr True"
    by (auto simp: map_coloring_result dict_contains_iff)
qed

theorem no_validation_witness:
  "MapColoringProblem_init [''A''] [(''A'', [''Z''])] 0 [[] :: string list]
     = (\<lparr>variables = [''A''], domains = [(''A'', 1)], neighbors = [(''A'', [''Z''])]\<rparr>,
        [[], []])
   \<and> (0 :: nat) < length [[] :: string list]
   \<and> [[] :: string list] ! 0 = []
   \<and> domain_of [[], []]
        \<lparr>variables = [''A''], domains = [(''A'', 1)], neighbors = [(''A'', [''Z''])]\<rparr> ''A''
     = Inr ([] :: string list)
   \<and> CourseSchedulingProblem_init [''math''] ([] :: string list) [''R101'']
        [(''math'', ''art'')] []
     = (\<lparr>variables = [''math''], domains = [(''math'', 1)], time_slots = [],
          rooms = [''R101''], conflicts = [(''math'', ''art'')]\<rparr>, [[], []])
   \<and> domain_of [[], []]
        \<lparr>variables = [''math''], domains = [(''math'', 1)], time_slots = ([] :: string list),
          rooms = [''R101''], conflicts = [(''math'', ''art'')]\<rparr> ''math''
     = Inr ([] :: (string \<times> string) list)
   \<and> \<not> dict_contains ([] :: (string, string) dict) ''Z''
   \<and> MapColoringProblem_is_consistent
        \<lparr>variables = [''A''], domains = [(''A'', 1)], neighbors = [(''A'', [''Z''])]\<rparr>
        ''A'' ''red'' [] = Inr True"
  using no_validation
    [where regions = "[''A'']" and nbs = "[(''A'', [''Z''])]" and colors = 0
       and h = "[[] :: string list]"
       and P = "\<lparr>variables = [''A''], domains = [(''A'', 1)], neighbors = [(''A'', [''Z''])]\<rparr>"
       and h' = "[[], []]"
       and courses = "[''math'']" and ts = "[] :: string list" and rs = "[''R101'']"
       and cs = "[(''math'', ''art'')]" and g = "[]"
       and Q = "\<lparr>variables = [''math''], domains = [(''math'', 1)], time_slots = [],
          rooms = [''R101''], conflicts = [(''math'', ''art'')]\<rparr>"
       and g' = "[[], []]"
       and self = "\<lparr>variables = [''A''], domains = [(''A'', 1)],
          neighbors = [(''A'', [''Z''])]\<rparr>"
       and v = "''A''" and x = "''red''" and A = "[]"]
  by (simp add: MapColoringProblem_init_def CourseSchedulingProblem_init_def
      CSPProblem_init_def CSPProblem.extend_def MapColoringProblem.fields_def
      CourseSchedulingProblem.fields_def list_copy_def list_new_def dict_setitem_def
      possible_slots_def dict_get_def dict_contains_def)

text \<open>
  C4 as stated fails for a neighbors entry naming the unknown region \<open>Z\<close>: the problem is
  constructed with the entry in place, and its first use returns \<open>True\<close> without an error.
\<close>

theorem unknown_neighbor_counterexample:
  "MapColoringProblem_init [''A'', ''B''] [(''A'', [''Z''])] 0 [[''red'']]
     = (\<lparr>variables = [''A'', ''B''], domains = [(''A'', 1), (''B'', 2)],
          neighbors = [(''A'', [''Z''])]\<rparr>,
        [[''red''], [''red''], [''red'']])
   \<and> MapColoringProblem_is_consistent
        \<lparr>variables = [''A'', ''B''], domains = [(''A'', 1), (''B'', 2)],
          neighbors = [(''A'', [''Z''])]\<rparr>
        ''A'' ''red'' [(''B'', ''red'')] = Inr True"
  by (simp add: MapColoringProblem_init_def CSPProblem_init_def CSPProblem.extend_def
      MapColoringProblem.fields_def list_copy_def list_new_def dict_setitem_def
      MapColoringProblem_is_consistent_def dict_get_def domain_of_def dict_getitem_def
      dict_contains_def)

text \<open>
  C5.  After construction every region of a \<open>MapColoringProblem\<close> has a domain equal, as a
  list, to the given colors list, and every course of a \<open>CourseSchedulingProblem\<close> has a
  domain equal to the time-major Cartesian product of the time slots and the rooms.  Each
  domain is a list object of its own, allocated by the constructor: no other variable
  refers to it, it is none of the objects that existed before the call, the constructor
  changes none of those, and a later write to any of them leaves the domain as it is.
\<close>

theorem initial_domains:
  "(colors < length h \<longrightarrow> MapColoringProblem_init regions nbs colors h = (P, h') \<longrightarrow>
      region \<in> set regions \<longrightarrow>
        domain_of h' P region = Inr (h ! colors)
        \<and> (\<exists>a. dict_getitem (domains P) region = Inr a \<and> length h \<le> a \<and> a < length h'
              \<and> (\<forall>k. k \<noteq> region \<longrightarrow> dict_getitem (domains P) k \<noteq> Inr a))
        \<and> (\<forall>b ys. b < length h \<longrightarrow> domain_of (h'[b := ys]) P region = Inr (h ! colors))
        \<and> take (length h) h' = h)
   \<and> (CourseSchedulingProblem_init courses ts rs cs g = (Q, g') \<longrightarrow>
      course \<in> set courses \<longrightarrow>
        (\<exists>slots. domain_of g' Q course = Inr slots \<and> slots = List.product ts rs
              \<and> length slots = length ts * length rs
              \<and> (\<forall>i j. i < length ts \<longrightarrow> j < length rs \<longrightarrow>
                    slots ! (i * length rs + j) = (ts ! i, rs ! j)))
        \<and> (\<exists>a. dict_getitem (domains Q) course = Inr a \<and> length g < a \<and> a < length g'
              \<and> (\<forall>k. k \<noteq> course \<longrightarrow> dict_getitem (domains Q) k \<noteq> Inr a))
        \<and> (\<forall>b ys. b < length g \<longrightarrow>
              domain_of (g'[b := ys]) Q course = Inr (List.product ts rs))
        \<and> take (length g) g' = g)"
proof (intro conjI impI)
  assume valid: "colors < length h"
    and init: "MapColoringProblem_init regions nbs colors h = (P, h')"
    and region: "region \<in> set regions"
  from map_coloring_init_unfold [OF init]
  have run: "copy_for_each regions colors [] h = (domains P, h')" by auto
  from fresh_domains(1) [OF run valid region]
  obtain a where a: "dict_getitem (domains P) region = Inr a" "length h \<le> a" "a < length h'"
    "h' ! a = h ! colors" "\<forall>k'. k' \<noteq> region \<longrightarrow> dict_getitem (domains P) k' \<noteq> Inr a"
    "\<forall>b ys. b < length h \<longrightarrow> (h'[b := ys]) ! a = h ! colors"
    by blast
  from a show "domain_of h' P region = Inr (h ! colors)"
    by (simp add: domain_of_def)
  from a show "\<exists>a. dict_getitem (domains P) region = Inr a \<and> length h \<le> a \<and> a < length h'
              \<and> (\<forall>k. k \<noteq> region \<longrightarrow> dict_getitem (domains P) k \<noteq> Inr a)"
    by blast
  from a show "\<forall>b ys. b < length h \<longrightarrow> domain_of (h'[b := ys]) P region = Inr (h ! colors)"
    by (simp add: domain_of_def)
  from fresh_domains(2) [OF run valid region] show "take (length h) h' = h" .
next
  assume init: "CourseSchedulingProblem_init courses ts rs cs g = (Q, g')"
    and course: "course \<in> set courses"
  let ?g1 = "g @ [possible_slots ts rs]"
  from course_scheduling_init_unfold [OF init]
  have run: "copy_for_each courses (length g) [] ?g1 = (domains Q, g')" by auto
  have valid: "length g < length ?g1" by simp
  have src: "?g1 ! length g = List.product ts rs"
    by (simp add: possible_slots_product)
  from fresh_domains(1) [OF run valid course]
  obtain a where a: "dict_getitem (domains Q) course = Inr a" "length ?g1 \<le> a" "a < length g'"
    "g' ! a = ?g1 ! length g" "\<forall>k'. k' \<noteq> course \<longrightarrow> dict_getitem (domains Q) k' \<noteq> Inr a"
    "\<forall>b ys. b < length ?g1 \<longrightarrow> (g'[b := ys]) ! a = ?g1 ! length g"
    by blast
  have content: "domain_of g' Q course = Inr (List.product ts rs)"
    using a src by (simp add: domain_of_def)
  have index: "\<forall>i j. i < length ts \<longrightarrow> j < length rs \<longrightarrow>
      List.product ts rs ! (i * length rs + j) = (ts ! i, rs ! j)"
  proof (intro allI impI)
    fix i j assume i: "i < length ts" and j: "j < length rs"
    from i have "Suc i \<le> length ts" by simp
    then have "Suc i * length rs \<le> length ts * length rs" by (rule mult_le_mono1)
    with j have "i * length rs + j < length ts * length rs" by simp
    moreover from j have "(i * length rs + j) div length rs = i"
      by (rule row_major_div)
    moreover from j have "(i * length rs + j) mod length rs = j"
      by (rule row_major_mod)
    ultimately show "List.product ts rs ! (i * length rs + j) = (ts ! i, rs ! j)"
      by (simp only: product_nth)
  qed
  from content index
  show "\<exists>slots. domain_of g' Q course = Inr slots \<and> slots = List.product ts rs
              \<and> length slots = length ts * length rs
              \<and> (\<forall>i j. i < length ts \<longrightarrow> j < length rs \<longrightarrow>
                    slots ! (i * length rs + j) = (ts ! i, rs ! j))"
    by simp
  from a show "\<exists>a. dict_getitem (domains Q) course = Inr a \<and> length g < a \<and> a < length g'
              \<and> (\<forall>k. k \<noteq> course \<longrightarrow> dict_getitem (domains Q) k \<noteq> Inr a)"
    by auto
  from a src show "\<forall>b ys. b < length g \<longrightarrow>
              domain_of (g'[b := ys]) Q course = Inr (List.product ts rs)"
    by (simp add: domain_of_def)
  from fresh_domains(2) [OF run valid course] have "take (length ?g1) g' = ?g1" .
  then have "take (length g) (take (length ?g1) g') = take (length g) ?g1" by simp
  then show "take (length g) g' = g" by (simp add: min_def)
qed

theorem initial_domains_witness:
  "(0::nat) < length [[''red'', ''green'']]
   \<and> MapColoringProblem_init [''A'', ''B''] [(''A'', [''B'']), (''B'', [''A''])] 0
         [[''red'', ''green'']]
       = (\<lparr>variables = [''A'', ''B''], domains = [(''A'', 1), (''B'', 2)],
            neighbors = [(''A'', [''B'']), (''B'', [''A''])]\<rparr>,
          [[''red'', ''green''], [''red'', ''green''], [''red'', ''green'']])
   \<and> ''A'' \<in> set [''A'', ''B'']
   \<and> domain_of [[''red'', ''green''], [''red'', ''green''], [''red'', ''green'']]
         \<lparr>variables = [''A'', ''B''], domains = [(''A'', 1), (''B'', 2)],
            neighbors = [(''A'', [''B'']), (''B'', [''A''])]\<rparr> ''A''
       = Inr [''red'', ''green'']
   \<and> CourseSchedulingProblem_init [''math''] [''08:00'', ''10:00''] [''R101'', ''R102'']
         [(''math'', ''physics'')] []
       = (\<lparr>variables = [''math''], domains = [(''math'', 1)],
            time_slots = [''08:00'', ''10:00''], rooms = [''R101'', ''R102''],
            conflicts = [(''math'', ''physics'')]\<rparr>,
          [[(''08:00'', ''R101''), (''08:00'', ''R102''), (''10:00'', ''R101''),
            (''10:00'', ''R102'')],
           [(''08:00'', ''R101''), (''08:00'', ''R102''), (''10:00'', ''R101''),
            (''10:00'', ''R102'')]])
   \<and> ''math'' \<in> set [''math'']
   \<and> domain_of
         [[(''08:00'', ''R101''), (''08:00'', ''R102''), (''10:00'', ''R101''),
           (''10:00'', ''R102'')],
          [(''08:00'', ''R101''), (''08:00'', ''R102''), (''10:00'', ''R101''),
           (''10:00'', ''R102'')]]
         \<lparr>variables = [''math''], domains = [(''math'', 1)],
            time_slots = [''08:00'', ''10:00''], rooms = [''R101'', ''R102''],
            conflicts = [(''math'', ''physics'')]\<rparr> ''math''
       = Inr [(''08:00'', ''R101''), (''08:00'', ''R102''), (''10:00'', ''R101''),
              (''10:00'', ''R102'')]"
  using initial_domains
    [where colors = 0 and h = "[[''red'', ''green'']]" and regions = "[''A'', ''B'']"
       and nbs = "[(''A'', [''B'']), (''B'', [''A''])]"
       and P = "\<lparr>variables = [''A'', ''B''], domains = [(''A'', 1), (''B'', 2)],
            neighbors = [(''A'', [''B'']), (''B'', [''A''])]\<rparr>"
       and h' = "[[''red'', ''green''], [''red'', ''green''], [''red'', ''green'']]"
       and region = "''A''" and courses = "[''math'']" and ts = "[''08:00'', ''10:00'']"
       and rs = "[''R101'', ''R102'']" and cs = "[(''math'', ''physics'')]" and g = "[]"
       and Q = "\<lparr>variables = [''math''], domains = [(''math'', 1)],
            time_slots = [''08:00'', ''10:00''], rooms = [''R101'', ''R102''],
            conflicts = [(''math'', ''physics'')]\<rparr>"
       and g' = "[[(''08:00'', ''R101''), (''08:00'', ''R102''), (''10:00'', ''R101''),
            (''10:00'', ''R102'')],
           [(''08:00'', ''R101''), (''08:00'', ''R102''), (''10:00'', ''R101''),
            (''10:00'', ''R102'')]]"
       and course = "''math''"]
  by (simp add: MapColoringProblem_init_def CourseSchedulingProblem_init_def
      CSPProblem_init_def CSPProblem.extend_def MapColoringProblem.fields_def
      CourseSchedulingProblem.fields_def list_copy_def list_new_def dict_setitem_def
      possible_slots_def)

text \<open>
  C6.  Both checks are functions of the problem data and of the assigned entries they
  consult.  Two calls of \<open>MapColoringProblem.is_consistent(v, x, _)\<close> on states with the
  same neighbors mapping, whose assignments agree on the neighbors of \<open>v\<close>, return the same
  result; two calls of \<open>CourseSchedulingProblem.is_consistent(c, val, _)\<close> on states with
  the same conflicts list, whose assignments have the same entries for the courses other
  than \<open>c\<close>, return the same result.  Nothing else in the state, in particular no
  unassigned variable and no domain, influences the result.
\<close>

theorem is_consistent_reads_only_assigned:
  "(neighbors (mc_self s) = neighbors (mc_self s') \<longrightarrow>
      (\<forall>n \<in> set (dict_get (neighbors (mc_self s)) v []).
          dict_getitem (mc_assignment s) n = dict_getitem (mc_assignment s') n) \<longrightarrow>
      fst (MapColoringProblem_is_consistent_st v x s) = fst (MapColoringProblem_is_consistent_st v x s'))
   \<and> (conflicts (cs_self t) = conflicts (cs_self t') \<longrightarrow>
      set (dict_items (dict_without (cs_assignment t) c))
        = set (dict_items (dict_without (cs_assignment t') c)) \<longrightarrow>
      fst (CourseSchedulingProblem_is_consistent_st c val t)
        = fst (CourseSchedulingProblem_is_consistent_st c val t'))"
proof (intro conjI impI)
  assume nb: "neighbors (mc_self s) = neighbors (mc_self s')"
    and agree: "\<forall>n \<in> set (dict_get (neighbors (mc_self s)) v []).
          dict_getitem (mc_assignment s) n = dict_getitem (mc_assignment s') n"
  have "\<forall>n \<in> set (dict_get (neighbors (mc_self s)) v []).
      map_of (mc_assignment s) n = Some x \<longleftrightarrow> map_of (mc_assignment s') n = Some x"
    using agree by (simp flip: dict_getitem_Inr)
  then show "fst (MapColoringProblem_is_consistent_st v x s) = fst (MapColoringProblem_is_consistent_st v x s')"
    by (simp add: MapColoringProblem_is_consistent_st_eq map_coloring_result flip: nb)
next
  assume cf: "conflicts (cs_self t) = conflicts (cs_self t')"
    and agree: "set (dict_items (dict_without (cs_assignment t) c))
        = set (dict_items (dict_without (cs_assignment t') c))"
  obtain tm rm where val: "val = (tm, rm)" by (cases val)
  have "(\<exists>e \<in> set (cs_assignment t). clashes (conflicts (cs_self t)) c tm rm e)
      \<longleftrightarrow> (\<exists>e \<in> set (cs_assignment t'). clashes (conflicts (cs_self t)) c tm rm e)"
    unfolding clashes_without [of "cs_assignment t"] clashes_without [of "cs_assignment t'"]
      agree ..
  then show "fst (CourseSchedulingProblem_is_consistent_st c val t)
        = fst (CourseSchedulingProblem_is_consistent_st c val t')"
    by (simp add: val CourseSchedulingProblem_is_consistent_st_eq course_scheduling_result
        dict_items_def flip: cf)
qed

theorem is_consistent_reads_only_assigned_witness:
  "neighbors (mc_self \<lparr>mc_self = one_sided_map, mc_heap = [[''red'']],
        mc_assignment = [(''B'', ''red''), (''C'', ''green'')]\<rparr>)
     = neighbors (mc_self \<lparr>mc_self = one_sided_map, mc_heap = [],
        mc_assignment = [(''C'', ''blue''), (''B'', ''red'')]\<rparr>)
   \<and> dict_getitem [(''B'', ''red''), (''C'', ''green'')] ''B''
     = dict_getitem [(''C'', ''blue''), (''B'', ''red'')] ''B''
   \<and> fst (MapColoringProblem_is_consistent_st ''A'' ''red''
         \<lparr>mc_self = one_sided_map, mc_heap = [[''red'']],
          mc_assignment = [(''B'', ''red''), (''C'', ''green'')]\<rparr>)
     = fst (MapColoringProblem_is_consistent_st ''A'' ''red''
         \<lparr>mc_self = one_sided_map, mc_heap = [],
          mc_assignment = [(''C'', ''blue''), (''B'', ''red'')]\<rparr>)
   \<and> conflicts (cs_self \<lparr>cs_self = two_courses, cs_heap = [],
        cs_assignment = [(''math'', (''08:00'', ''R101'')), (''physics'', (''10:00'', ''R101''))]\<rparr>)
     = conflicts (cs_self \<lparr>cs_self = two_courses, cs_heap = [[]],
        cs_assignment = [(''physics'', (''10:00'', ''R101''))]\<rparr>)
   \<and> set (dict_items (dict_without
         [(''math'', (''08:00'', ''R101'')), (''physics'', (''10:00'', ''R101''))] ''math''))
     = set (dict_items (dict_without [(''physics'', (''10:00'', ''R101''))] ''math''))
   \<and> fst (CourseSchedulingProblem_is_consistent_st ''math'' (''10:00'', ''R101'')
         \<lparr>cs_self = two_courses, cs_heap = [],
          cs_assignment =
            [(''math'', (''08:00'', ''R101'')), (''physics'', (''10:00'', ''R101''))]\<rparr>)
     = fst (CourseSchedulingProblem_is_consistent_st ''math'' (''10:00'', ''R101'')
         \<lparr>cs_self = two_courses, cs_heap = [[]],
          cs_assignment = [(''physics'', (''10:00'', ''R101''))]\<rparr>)"
  using is_consistent_reads_only_assigned
    [where s = "\<lparr>mc_self = one_sided_map, mc_heap = [[''red'']],
          mc_assignment = [(''B'', ''red''), (''C'', ''green'')]\<rparr>"
       and s' = "\<lparr>mc_self = one_sided_map, mc_heap = [],
          mc_assignment = [(''C'', ''blue''), (''B'', ''red'')]\<rparr>"
       and v = "''A''" and x = "''red''"
       and t = "\<lparr>cs_self = two_courses, cs_heap = [],
          cs_assignment =
            [(''math'', (''08:00'', ''R101'')), (''physics'', (''10:00'', ''R101''))]\<rparr>"
       and t' = "\<lparr>cs_self = two_courses, cs_heap = [[]],
          cs_assignment = [(''physics'', (''10:00'', ''R101''))]\<rparr>"
       and c = "''math''" and val = "(''10:00'', ''R101'')"]
  by (simp add: one_sided_map_neighbors dict_get_def dict_getitem_def dict_items_def
      dict_without_def)

text \<open>
  C7.  A call of \<open>is_consistent\<close> on either class mutates nothing: the state after the call,
  that is the assignment, every field of the problem (neighbors, variables and domains;
  time slots, rooms, conflicts, variables and domains) and the domain lists, is the state
  before the call.
\<close>

theorem is_consistent_mutates_nothing:
  "snd (MapColoringProblem_is_consistent_st v x s) = s
   \<and> snd (CourseSchedulingProblem_is_consistent_st c val t) = t"
  by (simp add: MapColoringProblem_is_consistent_st_eq CourseSchedulingProblem_is_consistent_st_eq)

theorem is_consistent_mutates_nothing_witness:
  "snd (MapColoringProblem_is_consistent_st ''A'' ''red''
         \<lparr>mc_self = one_sided_map, mc_heap = [[''red'']], mc_assignment = [(''B'', ''red'')]\<rparr>)
     = \<lparr>mc_self = one_sided_map, mc_heap = [[''red'']], mc_assignment = [(''B'', ''red'')]\<rparr>
   \<and> snd (CourseSchedulingProblem_is_consistent_st ''math'' (''10:00'', ''R101'')
         \<lparr>cs_self = two_courses, cs_heap = [],
          cs_assignment = [(''physics'', (''10:00'', ''R101''))]\<rparr>)
     = \<lparr>cs_self = two_courses, cs_heap = [],
        cs_assignment = [(''physics'', (''10:00'', ''R101''))]\<rparr>"
  using is_consistent_mutates_nothing
    [of "''A''" "''red''"
        "\<lparr>mc_self = one_sided_map, mc_heap = [[''red'']], mc_assignment = [(''B'', ''red'')]\<rparr>"
        "''math''" "(''10:00'', ''R101'')"
        "\<lparr>cs_self = two_courses, cs_heap = [],
          cs_assignment = [(''physics'', (''10:00'', ''R101''))]\<rparr>"]
  by simp

text \<open>
  C8.  On the empty assignment both checks accept every variable and every candidate
  value (for the scheduling problem a pair of a time and a room): the first tentative
  assignment of a search is never rejected.
\<close>

theorem empty_assignment_accepts:
  "MapColoringProblem_is_consistent self v x [] = Inr True
   \<and> CourseSchedulingProblem_is_consistent self' c val [] = True"
proof
  show "MapColoringProblem_is_consistent self v x [] = Inr True"
    by (simp add: map_coloring_result)
  show "CourseSchedulingProblem_is_consistent self' c val [] = True"
    by (cases val) (simp add: course_scheduling_result dict_items_def)
qed

theorem empty_assignment_accepts_witness:
  "MapColoringProblem_is_consistent one_sided_map ''A'' ''red'' [] = Inr True
   \<and> CourseSchedulingProblem_is_consistent two_courses ''math'' (''08:00'', ''R101'') [] = True"
  using empty_assignment_accepts
    [of one_sided_map "''A''" "''red''" two_courses "''math''" "(''08:00'', ''R101'')"]
  by simp

text \<open>
  C9.  For a variable with no entry in the neighbors mapping,
  \<open>MapColoringProblem.is_consistent\<close> raises no error and returns \<open>True\<close>, whatever the
  value and the assignment: \<open>neighbors.get(v, [])\<close> yields the empty list.
\<close>

theorem map_coloring_unlisted_variable:
  "\<not> dict_contains (neighbors self) v \<Longrightarrow> MapColoringProblem_is_consistent self v x A = Inr True"
  by (simp add: map_coloring_result dict_get_def dict_contains_iff)

theorem map_coloring_unlisted_variable_witness:
  "\<not> dict_contains (neighbors one_sided_map) ''B''
   \<and> MapColoringProblem_is_consistent one_sided_map ''B'' ''red'' [(''A'', ''red'')] = Inr True"
proof -
  have unlisted: "\<not> dict_contains (neighbors one_sided_map) ''B''"
    by (simp add: one_sided_map_neighbors dict_contains_def)
  with map_coloring_unlisted_variable [OF unlisted, of "''red''" "[(''A'', ''red'')]"]
  show ?thesis by simp
qed

text \<open>
  C10.  \<open>CourseSchedulingProblem.is_consistent\<close> ignores an entry of the queried course
  itself: the result on \<open>A\<close> is the result on \<open>A\<close> with the entry of \<open>c\<close> removed.
\<close>

theorem course_scheduling_ignores_own_entry:
  "CourseSchedulingProblem_is_consistent self c val A =
   CourseSchedulingProblem_is_consistent self c val (dict_without A c)"
proof (cases val)
  case (Pair t r)
  have "(\<exists>e \<in> set A. clashes (conflicts self) c t r e)
      \<longleftrightarrow> (\<exists>e \<in> set (filter (\<lambda>(k, v). k \<noteq> c) A). clashes (conflicts self) c t r e)"
    by (auto simp: clashes_def)
  then show ?thesis
    by (simp add: Pair course_scheduling_result dict_items_def dict_without_def)
qed

theorem course_scheduling_ignores_own_entry_witness:
  "CourseSchedulingProblem_is_consistent two_courses ''math'' (''08:00'', ''R101'')
       [(''math'', (''08:00'', ''R101''))]
   = CourseSchedulingProblem_is_consistent two_courses ''math'' (''08:00'', ''R101'') []"
  using course_scheduling_ignores_own_entry
    [of two_courses "''math''" "(''08:00'', ''R101'')" "[(''math'', (''08:00'', ''R101''))]"]
  by (simp add: dict_without_def)

end
